theory Spec2Isabelle
  imports
    Complex_Main
    "HOL-Library.AList"
    "HOL-Library.Char_ord"
    "HOL-Library.List_Lexorder"
    "HOL-Library.Product_Lexorder"
begin

section \<open>Python string operations used by the query-option interpreter\<close>

text \<open>
  A text is a \<^typ>\<open>string\<close> whose characters are the code points below 256 (ASCII
  and Latin-1); the character classes and the case table below are Python's on that
  range.  Each function is the Python operation named in its comment.
\<close>

definition isspace :: "char \<Rightarrow> bool" where
  \<comment> \<open>the characters \<^verbatim>\<open>str.strip()\<close>, \<^verbatim>\<open>str.split()\<close> and the pattern \<^verbatim>\<open>\s\<close> treat as whitespace\<close>
  "isspace c = (c \<in> set [CHR 0x20, CHR 0x09, CHR 0x0A, CHR 0x0B, CHR 0x0C, CHR 0x0D,
                          CHR 0x1C, CHR 0x1D, CHR 0x1E, CHR 0x1F, CHR 0x85, CHR 0xA0])"

definition latin1_word :: "char list" where
  \<comment> \<open>the letters and numeric characters of Latin-1\<close>
  "latin1_word =
     [CHR 0xAA, CHR 0xB2, CHR 0xB3, CHR 0xB5, CHR 0xB9, CHR 0xBA, CHR 0xBC, CHR 0xBD,
      CHR 0xBE, CHR 0xC0, CHR 0xC1, CHR 0xC2, CHR 0xC3, CHR 0xC4, CHR 0xC5, CHR 0xC6,
      CHR 0xC7, CHR 0xC8, CHR 0xC9, CHR 0xCA, CHR 0xCB, CHR 0xCC, CHR 0xCD, CHR 0xCE,
      CHR 0xCF, CHR 0xD0, CHR 0xD1, CHR 0xD2, CHR 0xD3, CHR 0xD4, CHR 0xD5, CHR 0xD6,
      CHR 0xD8, CHR 0xD9, CHR 0xDA, CHR 0xDB, CHR 0xDC, CHR 0xDD, CHR 0xDE, CHR 0xDF,
      CHR 0xE0, CHR 0xE1, CHR 0xE2, CHR 0xE3, CHR 0xE4, CHR 0xE5, CHR 0xE6, CHR 0xE7,
      CHR 0xE8, CHR 0xE9, CHR 0xEA, CHR 0xEB, CHR 0xEC, CHR 0xED, CHR 0xEE, CHR 0xEF,
      CHR 0xF0, CHR 0xF1, CHR 0xF2, CHR 0xF3, CHR 0xF4, CHR 0xF5, CHR 0xF6, CHR 0xF8,
      CHR 0xF9, CHR 0xFA, CHR 0xFB, CHR 0xFC, CHR 0xFD, CHR 0xFE, CHR 0xFF]"

definition isword :: "char \<Rightarrow> bool" where
  \<comment> \<open>the pattern \<^verbatim>\<open>\w\<close>: alphanumeric characters and the underscore\<close>
  "isword c = (c \<in> set (''abcdefghijklmnopqrstuvwxyz'' @ ''ABCDEFGHIJKLMNOPQRSTUVWXYZ'' @
                         ''0123456789'' @ ''_'' @ latin1_word))"

definition latin1_upper :: "char list" where
  "latin1_upper =
     [CHR 0xC0, CHR 0xC1, CHR 0xC2, CHR 0xC3, CHR 0xC4, CHR 0xC5, CHR 0xC6, CHR 0xC7,
      CHR 0xC8, CHR 0xC9, CHR 0xCA, CHR 0xCB, CHR 0xCC, CHR 0xCD, CHR 0xCE, CHR 0xCF,
      CHR 0xD0, CHR 0xD1, CHR 0xD2, CHR 0xD3, CHR 0xD4, CHR 0xD5, CHR 0xD6, CHR 0xD8,
      CHR 0xD9, CHR 0xDA, CHR 0xDB, CHR 0xDC, CHR 0xDD, CHR 0xDE]"

definition latin1_lower :: "char list" where
  "latin1_lower =
     [CHR 0xE0, CHR 0xE1, CHR 0xE2, CHR 0xE3, CHR 0xE4, CHR 0xE5, CHR 0xE6, CHR 0xE7,
      CHR 0xE8, CHR 0xE9, CHR 0xEA, CHR 0xEB, CHR 0xEC, CHR 0xED, CHR 0xEE, CHR 0xEF,
      CHR 0xF0, CHR 0xF1, CHR 0xF2, CHR 0xF3, CHR 0xF4, CHR 0xF5, CHR 0xF6, CHR 0xF8,
      CHR 0xF9, CHR 0xFA, CHR 0xFB, CHR 0xFC, CHR 0xFD, CHR 0xFE]"

definition lower_char :: "char \<Rightarrow> char" where
  "lower_char c =
     (case map_of (zip (''ABCDEFGHIJKLMNOPQRSTUVWXYZ'' @ latin1_upper)
                       (''abcdefghijklmnopqrstuvwxyz'' @ latin1_lower)) c of
        Some l \<Rightarrow> l
      | None \<Rightarrow> c)"

definition lower :: "string \<Rightarrow> string" where
  \<comment> \<open>\<^verbatim>\<open>s.lower()\<close>\<close>
  "lower s = map lower_char s"

definition strip :: "string \<Rightarrow> string" where
  \<comment> \<open>\<^verbatim>\<open>s.strip()\<close>\<close>
  "strip s = rev (dropWhile isspace (rev (dropWhile isspace s)))"

definition strip_chars :: "string \<Rightarrow> string \<Rightarrow> string" where
  \<comment> \<open>\<^verbatim>\<open>s.strip(chars)\<close>: every leading and trailing character that is in \<open>chars\<close> goes\<close>
  "strip_chars chars s =
     rev (dropWhile (\<lambda>c. c \<in> set chars) (rev (dropWhile (\<lambda>c. c \<in> set chars) s)))"

fun startswith :: "string \<Rightarrow> string \<Rightarrow> bool" where
  \<comment> \<open>\<^verbatim>\<open>s.startswith(p)\<close>\<close>
  "startswith s [] = True"
| "startswith [] (p # ps) = False"
| "startswith (c # cs) (p # ps) = (c = p \<and> startswith cs ps)"

fun str_in :: "string \<Rightarrow> string \<Rightarrow> bool" where
  \<comment> \<open>\<^verbatim>\<open>p in s\<close>\<close>
  "str_in p [] = (p = [])"
| "str_in p (c # cs) = (startswith (c # cs) p \<or> str_in p cs)"

fun split_scan :: "string \<Rightarrow> nat \<Rightarrow> string \<Rightarrow> string \<Rightarrow> string list" where
  \<comment> \<open>left-to-right scan for non-overlapping separators: \<open>k\<close> characters of a separator
      just found are still to be skipped, \<open>cur\<close> is the current piece, reversed\<close>
  "split_scan sep k cur [] = [rev cur]"
| "split_scan sep (Suc k) cur (c # cs) = split_scan sep k cur cs"
| "split_scan sep 0 cur (c # cs) =
     (if startswith (c # cs) sep then rev cur # split_scan sep (length sep - 1) [] cs
      else split_scan sep 0 (c # cur) cs)"

definition py_split :: "string \<Rightarrow> string \<Rightarrow> string list" where
  \<comment> \<open>\<^verbatim>\<open>s.split(sep)\<close> for a non-empty \<open>sep\<close> (the source only passes \<^verbatim>\<open>" eq "\<close> and \<^verbatim>\<open>","\<close>)\<close>
  "py_split sep s = split_scan sep 0 [] s"

fun split_ws :: "string \<Rightarrow> string \<Rightarrow> string list" where
  "split_ws cur [] = (if cur = [] then [] else [rev cur])"
| "split_ws cur (c # cs) =
     (if isspace c then (if cur = [] then split_ws [] cs else rev cur # split_ws [] cs)
      else split_ws (c # cur) cs)"

definition py_words :: "string \<Rightarrow> string list" where
  \<comment> \<open>\<^verbatim>\<open>s.split()\<close>: the maximal runs of non-whitespace characters\<close>
  "py_words s = split_ws [] s"

text \<open>
  The pattern \<^verbatim>\<open>contains\((\w+),\s*'([^']+)'\)\<close>.  Each repetition is followed by a
  character outside its class, so a match at a given position takes the maximal run
  every time and no backtracking changes the outcome; \<^verbatim>\<open>re.search\<close> returns the
  groups of the leftmost position where it matches.
\<close>

definition match_contains :: "string \<Rightarrow> (string \<times> string) option" where
  "match_contains s =
     (if startswith s ''contains('' then
        (let r1 = drop 9 s; field = takeWhile isword r1 in
         if field = [] then None
         else (case dropWhile isword r1 of
                 [] \<Rightarrow> None
               | c # r2 \<Rightarrow>
                   if c \<noteq> CHR '','' then None
                   else (case dropWhile isspace r2 of
                           [] \<Rightarrow> None
                         | q # r3 \<Rightarrow>
                             if q \<noteq> CHR 0x27 then None
                             else (let value = takeWhile (\<lambda>c. c \<noteq> CHR 0x27) r3 in
                                   if value = [] then None
                                   else (case dropWhile (\<lambda>c. c \<noteq> CHR 0x27) r3 of
                                           q' # p # _ \<Rightarrow>
                                             if p = CHR '')'' then Some (field, value) else None
                                         | _ \<Rightarrow> None)))))
      else None)"

fun re_search_contains :: "string \<Rightarrow> (string \<times> string) option" where
  "re_search_contains [] = None"
| "re_search_contains (c # cs) =
     (case match_contains (c # cs) of
        Some m \<Rightarrow> Some m
      | None \<Rightarrow> re_search_contains cs)"

section \<open>Selection\<close>

definition select_fields :: "string \<Rightarrow> string list" where
  \<comment> \<open>\<^verbatim>\<open>[field.strip() for field in select_str.split(',')]\<close>\<close>
  "select_fields select_str = map strip (py_split '','' select_str)"

definition select_item :: "string list \<Rightarrow> (string \<times> 'v) list \<Rightarrow> (string \<times> 'v) list" where
  \<comment> \<open>\<^verbatim>\<open>{field: item_dict.get(field) for field in fields if field in item_dict}\<close>: a key
      keeps the place of its first insertion\<close>
  "select_item fields item_dict =
     foldl (\<lambda>selected_item field.
              case map_of item_dict field of
                Some v \<Rightarrow> AList.update field v selected_item
              | None \<Rightarrow> selected_item)
       [] fields"

definition parse_select ::
  "('a \<Rightarrow> (string \<times> 'v) list) \<Rightarrow> string option \<Rightarrow> 'a list \<Rightarrow> (string \<times> 'v) list list"
where
  "parse_select to_dict select_str data =
     (case select_str of
        None \<Rightarrow> map to_dict data
      | Some s \<Rightarrow>
          if s = [] then map to_dict data
          else map (\<lambda>item. select_item (select_fields s) (to_dict item)) data)"

section \<open>Data model\<close>

datatype CustomerStatus = ACTIVE | INACTIVE | SUSPENDED

fun status_name :: "CustomerStatus \<Rightarrow> string" where
  "status_name ACTIVE = ''ACTIVE''"
| "status_name INACTIVE = ''INACTIVE''"
| "status_name SUSPENDED = ''SUSPENDED''"

fun status_value :: "CustomerStatus \<Rightarrow> string" where
  "status_value ACTIVE = ''Active''"
| "status_value INACTIVE = ''Inactive''"
| "status_value SUSPENDED = ''Suspended''"

text \<open>
  A naive \<^verbatim>\<open>datetime\<close> is its fields (year, month, day, hour, minute, second,
  microsecond); Python compares two of them in this lexicographic order.
\<close>

type_synonym datetime = "nat \<times> nat \<times> nat \<times> nat \<times> nat \<times> nat \<times> nat"

definition date :: "nat \<Rightarrow> nat \<Rightarrow> nat \<Rightarrow> datetime" where
  \<comment> \<open>\<^verbatim>\<open>datetime(y, m, d)\<close>\<close>
  "date y m d = (y, m, d, 0, 0, 0, 0)"

text \<open>
  A \<^verbatim>\<open>float\<close> is the rational number it denotes, an infinity, or NaN (the sign of a
  zero is not kept).  \<open>float_lt\<close> is \<^verbatim>\<open><\<close> on floats: false whenever NaN takes part.
  \<open>float_rank\<close> places the floats other than NaN in a linear order that agrees with it.
\<close>

datatype pyfloat = Fin rat | PosInf | NegInf | NaN

fun float_lt :: "pyfloat \<Rightarrow> pyfloat \<Rightarrow> bool" where
  "float_lt NaN b = False"
| "float_lt a NaN = False"
| "float_lt (Fin a) (Fin b) = (a < b)"
| "float_lt (Fin a) PosInf = True"
| "float_lt (Fin a) NegInf = False"
| "float_lt PosInf b = False"
| "float_lt NegInf NegInf = False"
| "float_lt NegInf b = True"

fun float_rank :: "pyfloat \<Rightarrow> int \<times> rat" where
  "float_rank NegInf = (- 1, 0)"
| "float_rank (Fin a) = (0, a)"
| "float_rank PosInf = (1, 0)"
| "float_rank NaN = (2, 0)"

text \<open>The values a record's \<^verbatim>\<open>.dict()\<close> holds, and the mappings the endpoints return.\<close>

datatype pyval =
    PInt int
  | PStr string
  | PEnum CustomerStatus
  | PDatetime datetime
  | PFloat pyfloat
  | PList "pyval list"
  | PDict "(string \<times> pyval) list"

type_synonym pydict = "(string \<times> pyval) list"

text \<open>
  \<^verbatim>\<open>Items\<close> is the one field with a default.  The model class records which fields
  the constructor was given (\<^verbatim>\<open>model_fields_set\<close>); for an order that is every required
  field, and \<^verbatim>\<open>Items\<close> when \<open>Items_set\<close> holds.
\<close>

record Order =
  OrderID :: int
  CustomerID :: int
  OrderDate :: datetime
  TotalAmount :: pyfloat
  Status :: string
  Items :: "string list"
  Items_set :: bool

definition order_fields_set :: "Order \<Rightarrow> string set" where
  \<comment> \<open>\<^verbatim>\<open>order.model_fields_set\<close>\<close>
  "order_fields_set o' =
     {''OrderID'', ''CustomerID'', ''OrderDate'', ''TotalAmount'', ''Status''} \<union>
     (if Items_set o' then {''Items''} else {})"

definition order_dict :: "Order \<Rightarrow> pydict" where
  \<comment> \<open>\<^verbatim>\<open>order.dict()\<close>\<close>
  "order_dict o' =
     [(''OrderID'', PInt (OrderID o')),
      (''CustomerID'', PInt (Order.CustomerID o')),
      (''OrderDate'', PDatetime (OrderDate o')),
      (''TotalAmount'', PFloat (TotalAmount o')),
      (''Status'', PStr (Order.Status o')),
      (''Items'', PList (map PStr (Items o')))]"

definition orders_data :: "Order list" where
  "orders_data =
     [\<lparr>OrderID = 1001, Order.CustomerID = 1, OrderDate = date 2024 1 10, TotalAmount = Fin 15000,
       Order.Status = ''Completed'', Items = [''Laptop'', ''Software License''],
       Items_set = True\<rparr>,
      \<lparr>OrderID = 1002, Order.CustomerID = 2, OrderDate = date 2024 1 15, TotalAmount = Fin 25000,
       Order.Status = ''Processing'', Items = [''Server'', ''Network Equipment''],
       Items_set = True\<rparr>,
      \<lparr>OrderID = 1003, Order.CustomerID = 1, OrderDate = date 2024 2 1, TotalAmount = Fin 8000,
       Order.Status = ''Shipped'', Items = [''Tablets'', ''Accessories''],
       Items_set = True\<rparr>,
      \<lparr>OrderID = 1004, Order.CustomerID = 4, OrderDate = date 2024 2 10, TotalAmount = Fin 35000,
       Order.Status = ''Completed'', Items = [''Enterprise Software''],
       Items_set = True\<rparr>]"

record Customer =
  CustomerID :: int
  CustomerName :: string
  Email :: string
  Phone :: string
  City :: string
  Country :: string
  Status :: CustomerStatus
  CreatedDate :: datetime
  CreditLimit :: pyfloat

definition customer_dict :: "Customer \<Rightarrow> pydict" where
  \<comment> \<open>\<^verbatim>\<open>customer.dict()\<close>: the enum member is kept as it is\<close>
  "customer_dict c =
     [(''CustomerID'', PInt (CustomerID c)),
      (''CustomerName'', PStr (CustomerName c)),
      (''Email'', PStr (Email c)),
      (''Phone'', PStr (Phone c)),
      (''City'', PStr (City c)),
      (''Country'', PStr (Country c)),
      (''Status'', PEnum (Status c)),
      (''CreatedDate'', PDatetime (CreatedDate c)),
      (''CreditLimit'', PFloat (CreditLimit c))]"

definition customers_data :: "Customer list" where
  "customers_data =
     [\<lparr>CustomerID = 1, CustomerName = ''Tech Solutions LLC'',
       Email = ''contact@techsolutions.com'', Phone = ''+1-555-0123'', City = ''New York'',
       Country = ''USA'', Status = ACTIVE, CreatedDate = date 2023 1 15, CreditLimit = Fin 50000\<rparr>,
      \<lparr>CustomerID = 2, CustomerName = ''Global Trading Co'',
       Email = ''info@globaltrading.com'', Phone = ''+1-555-0456'', City = ''Los Angeles'',
       Country = ''USA'', Status = ACTIVE, CreatedDate = date 2023 3 22, CreditLimit = Fin 75000\<rparr>,
      \<lparr>CustomerID = 3, CustomerName = ''European Systems'',
       Email = ''sales@eusystems.eu'', Phone = ''+49-30-123456'', City = ''Berlin'',
       Country = ''Germany'', Status = INACTIVE, CreatedDate = date 2023 2 10, CreditLimit = Fin 30000\<rparr>,
      \<lparr>CustomerID = 4, CustomerName = ''Asian Enterprises'',
       Email = ''contact@asianent.com'', Phone = ''+81-3-1234567'', City = ''Tokyo'',
       Country = ''Japan'', Status = ACTIVE, CreatedDate = date 2023 4 5, CreditLimit = Fin 60000\<rparr>]"

subsection \<open>The string form of a value\<close>

fun str_nat :: "nat \<Rightarrow> string" where
  "str_nat n =
     (if n < 10 then [''0123456789'' ! n] else str_nat (n div 10) @ [''0123456789'' ! (n mod 10)])"

declare str_nat.simps [simp del]

definition str_int :: "int \<Rightarrow> string" where
  "str_int i = (if i < 0 then ''-'' @ str_nat (nat (- i)) else str_nat (nat i))"

definition zfill :: "nat \<Rightarrow> string \<Rightarrow> string" where
  "zfill w s = replicate (w - length s) (CHR ''0'') @ s"

definition str_datetime :: "datetime \<Rightarrow> string" where
  \<comment> \<open>\<^verbatim>\<open>str(d)\<close> is \<^verbatim>\<open>d.isoformat(sep=' ')\<close>\<close>
  "str_datetime d =
     (case d of (y, mo, dd, h, mi, s, us) \<Rightarrow>
        zfill 4 (str_nat y) @ ''-'' @ zfill 2 (str_nat mo) @ ''-'' @ zfill 2 (str_nat dd) @ '' '' @
        zfill 2 (str_nat h) @ '':'' @ zfill 2 (str_nat mi) @ '':'' @ zfill 2 (str_nat s) @
        (if us = 0 then [] else ''.'' @ zfill 6 (str_nat us)))"

text \<open>
  \<^verbatim>\<open>str(v)\<close>.  \<^verbatim>\<open>CustomerStatus\<close> mixes \<^verbatim>\<open>str\<close> into \<^verbatim>\<open>Enum\<close>, whose \<^verbatim>\<open>__str__\<close> prints
  the class and member name.  Python's \<^verbatim>\<open>repr\<close> of a float, a list or a dict is not
  modelled: it is the parameter \<open>repr_of\<close>, and every statement below holds for each
  choice of it.
\<close>

fun py_str :: "(pyval \<Rightarrow> string) \<Rightarrow> pyval \<Rightarrow> string" where
  "py_str repr_of (PInt i) = str_int i"
| "py_str repr_of (PStr s) = s"
| "py_str repr_of (PEnum e) = ''CustomerStatus.'' @ status_name e"
| "py_str repr_of (PDatetime d) = str_datetime d"
| "py_str repr_of v = repr_of v"

section \<open>The filter stage\<close>

datatype py_error = ValueError | IndexError

text \<open>
  One pass of the loop body of \<^verbatim>\<open>parse_filter\<close> on an item's mapping: whether the item
  is appended, or the exception that escapes.  Unpacking the result of
  \<^verbatim>\<open>filter_str.split(" eq ")\<close> into two names raises \<^verbatim>\<open>ValueError\<close> unless there are
  exactly two pieces.  (The \<^verbatim>\<open>filter_parts\<close> the source computes first is never read.)
\<close>

definition filter_item :: "('v \<Rightarrow> string) \<Rightarrow> string \<Rightarrow> (string \<times> 'v) list \<Rightarrow> py_error + bool" where
  "filter_item str_of filter_str item_dict =
     (if str_in '' eq '' filter_str then
        (case py_split '' eq '' filter_str of
           [field, value] \<Rightarrow>
             (let field = strip field;
                  value = strip_chars [CHR 0x27, CHR 0x22] (strip value)
              in Inr (case map_of item_dict field of
                        Some v \<Rightarrow> lower (str_of v) = lower value
                      | None \<Rightarrow> False))
         | _ \<Rightarrow> Inl ValueError)
      else if str_in ''contains('' filter_str then
        (case re_search_contains filter_str of
           Some (field, value) \<Rightarrow>
             Inr (case map_of item_dict field of
                    Some v \<Rightarrow> str_in (lower value) (lower (str_of v))
                  | None \<Rightarrow> False)
         | None \<Rightarrow> Inr False)
      else Inr True)"

fun filter_loop ::
  "('v \<Rightarrow> string) \<Rightarrow> ('a \<Rightarrow> (string \<times> 'v) list) \<Rightarrow> string \<Rightarrow> 'a list \<Rightarrow> 'a list \<Rightarrow> py_error + 'a list"
where
  "filter_loop str_of to_dict filter_str [] filtered_data = Inr filtered_data"
| "filter_loop str_of to_dict filter_str (item # rest) filtered_data =
     (case filter_item str_of filter_str (to_dict item) of
        Inl e \<Rightarrow> Inl e
      | Inr keep \<Rightarrow>
          filter_loop str_of to_dict filter_str rest
            (if keep then filtered_data @ [item] else filtered_data))"

definition parse_filter ::
  "('v \<Rightarrow> string) \<Rightarrow> ('a \<Rightarrow> (string \<times> 'v) list) \<Rightarrow> string option \<Rightarrow> 'a list \<Rightarrow> py_error + 'a list"
where
  \<comment> \<open>\<open>str_of\<close> is \<^verbatim>\<open>str\<close> on the values, \<open>to_dict\<close> is \<^verbatim>\<open>item.dict()\<close>\<close>
  "parse_filter str_of to_dict filter_str data =
     (case filter_str of
        None \<Rightarrow> Inr data
      | Some s \<Rightarrow> if s = [] then Inr data else filter_loop str_of to_dict s data [])"

section \<open>The order stage\<close>

definition py_sorted :: "('a \<Rightarrow> 'k::linorder) \<Rightarrow> bool \<Rightarrow> 'a list \<Rightarrow> 'a list" where
  \<comment> \<open>\<^verbatim>\<open>sorted(data, key=key, reverse=reverse)\<close> on keys that \<^verbatim>\<open><\<close> orders linearly: a
      stable sort; with \<^verbatim>\<open>reverse\<close> the list is reversed, sorted and reversed again\<close>
  "py_sorted key reverse data =
     (if reverse then rev (sort_key key (rev data)) else sort_key key data)"

subsection \<open>Sorting float keys\<close>

text \<open>
  With a NaN among the keys \<^verbatim>\<open><\<close> is no order, and what \<^verbatim>\<open>sorted\<close> returns is what
  CPython's \<^verbatim>\<open>list.sort\<close> computes.  On fewer than 64 elements that is: take the
  initial run (\<^verbatim>\<open>count_run\<close>: the longest prefix without a descent, or the longest
  strictly descending prefix, which is reversed), then insert each remaining element
  at the place a binary search finds (\<^verbatim>\<open>binarysort\<close>: the pivot goes left of the
  probed element when it is less, right of it otherwise).
\<close>

fun ascending_run :: "('k \<Rightarrow> 'k \<Rightarrow> bool) \<Rightarrow> 'k \<Rightarrow> 'k list \<Rightarrow> nat" where
  "ascending_run lt prev [] = 0"
| "ascending_run lt prev (k # ks) = (if lt k prev then 0 else Suc (ascending_run lt k ks))"

fun descending_run :: "('k \<Rightarrow> 'k \<Rightarrow> bool) \<Rightarrow> 'k \<Rightarrow> 'k list \<Rightarrow> nat" where
  "descending_run lt prev [] = 0"
| "descending_run lt prev (k # ks) = (if lt k prev then Suc (descending_run lt k ks) else 0)"

definition count_run :: "('k \<Rightarrow> 'k \<Rightarrow> bool) \<Rightarrow> 'k list \<Rightarrow> nat \<times> bool" where
  \<comment> \<open>the length of the initial run, and whether it is descending\<close>
  "count_run lt ks =
     (case ks of
        [] \<Rightarrow> (0, False)
      | [k] \<Rightarrow> (1, False)
      | k0 # k1 # rest \<Rightarrow>
          if lt k1 k0 then (2 + descending_run lt k1 rest, True)
          else (2 + ascending_run lt k1 rest, False))"

function bisect :: "('k \<Rightarrow> 'k \<Rightarrow> bool) \<Rightarrow> 'k \<Rightarrow> 'k list \<Rightarrow> nat \<Rightarrow> nat \<Rightarrow> nat" where
  \<comment> \<open>the binary search of \<^verbatim>\<open>binarysort\<close> in \<^verbatim>\<open>ks[l:r]\<close>\<close>
  "bisect lt pivot ks l r =
     (if l < r then
        (let p = l + (r - l) div 2
         in if lt pivot (ks ! p) then bisect lt pivot ks l p else bisect lt pivot ks (Suc p) r)
      else l)"
  by pat_completeness auto
termination
  by (relation "measure (\<lambda>(lt, pivot, ks, l, r). r - l)") auto

declare bisect.simps [simp del]

fun binarysort :: "('k \<Rightarrow> 'k \<Rightarrow> bool) \<Rightarrow> ('a \<Rightarrow> 'k) \<Rightarrow> 'a list \<Rightarrow> 'a list \<Rightarrow> 'a list" where
  \<comment> \<open>\<open>run\<close> is the part already in place, the second list the elements still to insert\<close>
  "binarysort lt key run [] = run"
| "binarysort lt key run (pivot # rest) =
     (let l = bisect lt (key pivot) (map key run) 0 (length run)
      in binarysort lt key (take l run @ pivot # drop l run) rest)"

declare binarysort.simps [simp del]

definition small_sort :: "('k \<Rightarrow> 'k \<Rightarrow> bool) \<Rightarrow> ('a \<Rightarrow> 'k) \<Rightarrow> 'a list \<Rightarrow> 'a list" where
  "small_sort lt key xs =
     (if length xs < 2 then xs
      else (case count_run lt (map key xs) of
              (n, descending) \<Rightarrow>
                binarysort lt key (if descending then rev (take n xs) else take n xs) (drop n xs)))"

text \<open>
  \<^verbatim>\<open>sorted(data, key=key, reverse=reverse)\<close> on float keys.  Without a NaN the keys are
  linearly ordered and the sort is the stable one.  With a NaN and 64 elements or more
  the merges of \<^verbatim>\<open>list.sort\<close> decide; they are not modelled: the result is the
  parameter \<open>long_sort\<close>, and every statement below holds for each choice of it.
\<close>

definition float_sorted ::
  "(('a \<Rightarrow> pyfloat) \<Rightarrow> bool \<Rightarrow> 'a list \<Rightarrow> 'a list) \<Rightarrow> ('a \<Rightarrow> pyfloat) \<Rightarrow> bool \<Rightarrow> 'a list \<Rightarrow> 'a list"
where
  "float_sorted long_sort key reverse data =
     (if NaN \<notin> set (map key data) then py_sorted (\<lambda>x. float_rank (key x)) reverse data
      else if length data < 64 then
        (if reverse then rev (small_sort float_lt key (rev data)) else small_sort float_lt key data)
      else long_sort key reverse data)"

subsection \<open>Sorting records by an attribute\<close>

text \<open>
  The call \<^verbatim>\<open>sorted(data, key=lambda x: getattr(x, field) if hasattr(x, field) else
  x.get(field), reverse=desc)\<close> on a list of records of one class, \<open>None\<close> when it raises.
  On a declared field \<^verbatim>\<open>getattr\<close> reads the field, which is compared in the order of its
  own type (the enum as the \<^verbatim>\<open>str\<close> it mixes in).

  The base model class (pydantic 2) gives every record further attributes.  The set of
  fields given to the constructor can be read under the names \<open>fields_set_names\<close>;
  sets are compared by proper inclusion.  Every customer holds all nine fields, so
  the keys are equal and the list stays as it is; for orders the set grows with
  \<open>Items_set\<close>.  The values of the remaining attributes (methods, class-level
  mappings) do not compare, or are the same for every record, so the caller gets its
  input back as for a name that is no attribute at all: there the key of the first
  record raises \<^verbatim>\<open>AttributeError\<close> (the model class has no \<^verbatim>\<open>get\<close>), and an empty
  list never calls the key.
\<close>

definition fields_set_names :: "string list" where
  "fields_set_names = [''model_fields_set'', ''__fields_set__'', ''__pydantic_fields_set__'']"

definition customer_fields :: "string list" where
  "customer_fields = [''CustomerID'', ''CustomerName'', ''Email'', ''Phone'', ''City'',
     ''Country'', ''Status'', ''CreatedDate'', ''CreditLimit'']"

definition customer_sorted ::
  "((Customer \<Rightarrow> pyfloat) \<Rightarrow> bool \<Rightarrow> Customer list \<Rightarrow> Customer list) \<Rightarrow>
   string \<Rightarrow> bool \<Rightarrow> Customer list \<Rightarrow> Customer list option"
where
  "customer_sorted long_sort field reverse data =
     (if field = ''CustomerID'' then Some (py_sorted CustomerID reverse data)
      else if field = ''CustomerName'' then Some (py_sorted CustomerName reverse data)
      else if field = ''Email'' then Some (py_sorted Email reverse data)
      else if field = ''Phone'' then Some (py_sorted Phone reverse data)
      else if field = ''City'' then Some (py_sorted City reverse data)
      else if field = ''Country'' then Some (py_sorted Country reverse data)
      else if field = ''Status'' then Some (py_sorted (\<lambda>c. status_value (Status c)) reverse data)
      else if field = ''CreatedDate'' then Some (py_sorted CreatedDate reverse data)
      else if field = ''CreditLimit'' then Some (float_sorted long_sort CreditLimit reverse data)
      else if field \<in> set fields_set_names then Some data
      else if data = [] then Some []
      else None)"

definition order_fields :: "string list" where
  "order_fields = [''OrderID'', ''CustomerID'', ''OrderDate'', ''TotalAmount'', ''Status'', ''Items'']"

definition order_sorted ::
  "((Order \<Rightarrow> pyfloat) \<Rightarrow> bool \<Rightarrow> Order list \<Rightarrow> Order list) \<Rightarrow>
   string \<Rightarrow> bool \<Rightarrow> Order list \<Rightarrow> Order list option"
where
  \<comment> \<open>two fields sets differ at most in \<^verbatim>\<open>Items\<close>, so proper inclusion orders them as
      \<open>False < True\<close> orders \<open>Items_set\<close>\<close>
  "order_sorted long_sort field reverse data =
     (if field = ''OrderID'' then Some (py_sorted OrderID reverse data)
      else if field = ''CustomerID'' then Some (py_sorted Order.CustomerID reverse data)
      else if field = ''OrderDate'' then Some (py_sorted OrderDate reverse data)
      else if field = ''TotalAmount'' then Some (float_sorted long_sort TotalAmount reverse data)
      else if field = ''Status'' then Some (py_sorted Order.Status reverse data)
      else if field = ''Items'' then Some (py_sorted Items reverse data)
      else if field \<in> set fields_set_names then Some (py_sorted Items_set reverse data)
      else if data = [] then Some []
      else None)"

definition parse_orderby ::
  "(string \<Rightarrow> bool \<Rightarrow> 'a list \<Rightarrow> 'a list option) \<Rightarrow> string option \<Rightarrow> 'a list \<Rightarrow> py_error + 'a list"
where
  \<comment> \<open>\<open>sorted_by\<close> is the call of \<^verbatim>\<open>sorted\<close> for the record class; \<^verbatim>\<open>parts[0]\<close> is read
      before the \<^verbatim>\<open>try\<close> and raises \<^verbatim>\<open>IndexError\<close> on a text of whitespace only\<close>
  "parse_orderby sorted_by orderby_str data =
     (case orderby_str of
        None \<Rightarrow> Inr data
      | Some s \<Rightarrow>
          if s = [] then Inr data
          else (case py_words s of
                  [] \<Rightarrow> Inl IndexError
                | field # rest \<Rightarrow>
                    (let desc = (case rest of [] \<Rightarrow> False | d # _ \<Rightarrow> lower d = ''desc'')
                     in case sorted_by field desc data of
                          Some r \<Rightarrow> Inr r
                        | None \<Rightarrow> Inr data)))"

subsection \<open>Record lists used in examples\<close>

definition nan_customers :: "Customer list" where
  \<comment> \<open>seven customers with ids 1 to 7, the fourth with a NaN credit limit\<close>
  "nan_customers =
     map (\<lambda>(i, credit). (customers_data ! 0)\<lparr>CustomerID := i, CreditLimit := credit\<rparr>)
       [(1, Fin 0), (2, Fin (1 / 10)), (3, Fin 5), (4, NaN), (5, Fin 1), (6, Fin (1 / 2)),
        (7, Fin 1)]"

definition orders_without_items :: "Order list" where
  \<comment> \<open>the first seed order, and the second as \<^verbatim>\<open>Order(...)\<close> builds it without \<^verbatim>\<open>Items\<close>\<close>
  "orders_without_items =
     [orders_data ! 0, (orders_data ! 1)\<lparr>Items := [], Items_set := False\<rparr>]"

section \<open>Pagination and count\<close>

definition slice_from :: "int \<Rightarrow> 'a list \<Rightarrow> 'a list" where
  \<comment> \<open>\<^verbatim>\<open>xs[k:]\<close>; a negative \<open>k\<close> counts from the end\<close>
  "slice_from k xs = (if k < 0 then drop (nat (int (length xs) + k)) xs else drop (nat k) xs)"

definition slice_to :: "int \<Rightarrow> 'a list \<Rightarrow> 'a list" where
  \<comment> \<open>\<^verbatim>\<open>xs[:k]\<close>; a negative \<open>k\<close> counts from the end\<close>
  "slice_to k xs = (if k < 0 then take (nat (int (length xs) + k)) xs else take (nat k) xs)"

definition paginate :: "int option \<Rightarrow> int option \<Rightarrow> 'a list \<Rightarrow> 'a list" where
  \<comment> \<open>\<^verbatim>\<open>if skip: ordered_data = ordered_data[skip:]\<close>, then
      \<^verbatim>\<open>if top: ordered_data = ordered_data[:top]\<close>; \<open>None\<close> and \<open>0\<close> are falsy\<close>
  "paginate skip top' ordered_data =
     (let ordered_data =
            (case skip of
               Some k \<Rightarrow> if k \<noteq> 0 then slice_from k ordered_data else ordered_data
             | None \<Rightarrow> ordered_data)
      in case top' of
           Some k \<Rightarrow> if k \<noteq> 0 then slice_to k ordered_data else ordered_data
         | None \<Rightarrow> ordered_data)"

definition spec_page :: "nat option \<Rightarrow> nat option \<Rightarrow> 'a list \<Rightarrow> 'a list" where
  \<comment> \<open>the page as the specification words it: drop the first \<open>skip\<close> elements, then
      truncate to the first \<open>top'\<close> of the rest; an absent or zero value is a no-op\<close>
  "spec_page skip top' xs =
     (let rest = (case skip of None \<Rightarrow> xs | Some n \<Rightarrow> if n = 0 then xs else drop n xs)
      in case top' of None \<Rightarrow> rest | Some n \<Rightarrow> if n = 0 then rest else take n rest)"

section \<open>Endpoints\<close>

record ODataResponse =
  "value" :: "pydict list"
  count :: "nat option"

definition get_customers ::
  "((Customer \<Rightarrow> pyfloat) \<Rightarrow> bool \<Rightarrow> Customer list \<Rightarrow> Customer list) \<Rightarrow>
   (pyval \<Rightarrow> string) \<Rightarrow> string option \<Rightarrow> string option \<Rightarrow> string option \<Rightarrow> int option \<Rightarrow>
   int option \<Rightarrow> bool option \<Rightarrow> Customer list \<Rightarrow> py_error + ODataResponse"
where
  \<comment> \<open>the last argument is the module's \<^verbatim>\<open>customers_data\<close> at the time of the request;
      \<open>long_sort\<close> and \<open>str_of\<close> are the parameters of \<open>float_sorted\<close> and \<open>parse_filter\<close>\<close>
  "get_customers long_sort str_of filter_str select orderby top' skip cnt customers =
     (case parse_filter str_of customer_dict filter_str customers of
        Inl e \<Rightarrow> Inl e
      | Inr filtered_data \<Rightarrow>
          (case parse_orderby (customer_sorted long_sort) orderby filtered_data of
             Inl e \<Rightarrow> Inl e
           | Inr ordered_data \<Rightarrow>
               (let total_count = length ordered_data;
                    ordered_data = paginate skip top' ordered_data;
                    result_data = parse_select customer_dict select ordered_data
                in Inr \<lparr>value = result_data,
                        count = (if cnt = Some True then Some total_count else None)\<rparr>)))"

datatype http_error = HTTPException nat string

definition get_customer_by_id ::
  "int \<Rightarrow> string option \<Rightarrow> string option \<Rightarrow> Customer list \<Rightarrow> Order list \<Rightarrow> http_error + pydict"
where
  "get_customer_by_id customer_id select expand customers orders =
     (case find (\<lambda>c. CustomerID c = customer_id) customers of
        None \<Rightarrow> Inl (HTTPException 404 ''Customer not found'')
      | Some customer \<Rightarrow>
          (let result = customer_dict customer;
               result =
                 (case expand of
                    None \<Rightarrow> result
                  | Some e \<Rightarrow>
                      if e \<noteq> [] \<and> str_in ''Orders'' e then
                        AList.update ''Orders''
                          (PList (map (\<lambda>o'. PDict (order_dict o'))
                                    (filter (\<lambda>o'. Order.CustomerID o' = customer_id) orders)))
                          result
                      else result);
               result =
                 (case select of
                    None \<Rightarrow> result
                  | Some s \<Rightarrow> if s = [] then result else select_item (select_fields s) result)
           in Inr result))"

section \<open>The record store\<close>

text \<open>
  The module's list \<^verbatim>\<open>customers_data\<close> is passed in and returned; a handler that raises
  leaves it as it was.
\<close>

fun index_of_id :: "int \<Rightarrow> Customer list \<Rightarrow> nat option" where
  \<comment> \<open>the first \<open>i\<close> of \<^verbatim>\<open>enumerate(customers_data)\<close> whose record has the id\<close>
  "index_of_id customer_id [] = None"
| "index_of_id customer_id (c # cs) =
     (if CustomerID c = customer_id then Some 0 else map_option Suc (index_of_id customer_id cs))"

definition create_customer :: "Customer \<Rightarrow> Customer list \<Rightarrow> (http_error + pydict) \<times> Customer list" where
  "create_customer customer customers =
     (if \<exists>c \<in> set customers. CustomerID c = CustomerID customer
      then (Inl (HTTPException 400 ''Customer ID already exists''), customers)
      else (Inr [(''message'', PStr ''Customer created successfully''),
                 (''customer'', PDict (customer_dict customer))],
            customers @ [customer]))"

definition update_customer ::
  "int \<Rightarrow> Customer \<Rightarrow> Customer list \<Rightarrow> (http_error + pydict) \<times> Customer list"
where
  "update_customer customer_id customer customers =
     (case index_of_id customer_id customers of
        Some i \<Rightarrow>
          (Inr [(''message'', PStr ''Customer updated successfully''),
                (''customer'', PDict (customer_dict customer))],
           customers[i := customer])
      | None \<Rightarrow> (Inl (HTTPException 404 ''Customer not found''), customers))"

definition delete_customer :: "int \<Rightarrow> Customer list \<Rightarrow> (http_error + pydict) \<times> Customer list" where
  "delete_customer customer_id customers =
     (case index_of_id customer_id customers of
        Some i \<Rightarrow>
          (Inr [(''message'', PStr ''Customer deleted successfully'')],
           take i customers @ drop (Suc i) customers)
      | None \<Rightarrow> (Inl (HTTPException 404 ''Customer not found''), customers))"

section \<open>Properties of the filter stage\<close>

lemma filter_item_raises:
  "filter_item str_of s d = Inl e \<longleftrightarrow>
     str_in '' eq '' s \<and> length (py_split '' eq '' s) \<noteq> 2 \<and> e = ValueError"
  by (auto simp: filter_item_def Let_def split: list.splits option.splits prod.splits)

lemma filter_loop_keeps:
  assumes "\<And>x. x \<in> set data \<Longrightarrow> filter_item str_of s (to_dict x) = Inr (P x)"
  shows "filter_loop str_of to_dict s data acc = Inr (acc @ filter P data)"
  using assms by (induction data arbitrary: acc) auto

lemma filter_loop_raises:
  assumes "\<And>d. filter_item str_of s d = Inl e" and "data \<noteq> []"
  shows "filter_loop str_of to_dict s data acc = Inl e"
  using assms by (cases data) auto



text \<open>
  When the filter stage raises: exactly on a non-empty record list and a text in which
  the token \<^verbatim>\<open>" eq "\<close> does not split the text into two pieces.
\<close>

lemma parse_filter_raises_iff:
  "parse_filter str_of to_dict (Some s) data = Inl e \<longleftrightarrow>
     data \<noteq> [] \<and> str_in '' eq '' s \<and> length (py_split '' eq '' s) \<noteq> 2 \<and> e = ValueError"
proof (cases "str_in '' eq '' s \<and> length (py_split '' eq '' s) \<noteq> 2")
  case True
  then have "\<And>d. filter_item str_of s d = Inl ValueError"
    by (simp add: filter_item_raises)
  then have "data \<noteq> [] \<Longrightarrow> filter_loop str_of to_dict s data [] = Inl ValueError"
    by (rule filter_loop_raises)
  moreover have "s \<noteq> []" using True by auto
  ultimately show ?thesis using True
    by (cases data) (auto simp: parse_filter_def)
next
  case False
  then have "\<And>x. \<exists>b. filter_item str_of s (to_dict x) = Inr b"
    by (metis filter_item_raises sumE)
  then obtain P where "\<And>x. filter_item str_of s (to_dict x) = Inr (P x)"
    by metis
  then have "filter_loop str_of to_dict s data [] = Inr ([] @ filter P data)"
    by (intro filter_loop_keeps) simp
  then show ?thesis using False
    by (auto simp: parse_filter_def)
qed

text \<open>
  Claim C1 (every filter text is evaluated without raising) fails on the code.  The
  compound filter \<^verbatim>\<open>City eq Berlin and Country eq Germany\<close> holds the token
  \<^verbatim>\<open>" eq "\<close> twice, the split has three pieces, and unpacking them into
  \<^verbatim>\<open>field, value\<close> raises \<^verbatim>\<open>ValueError\<close> on the first seed customer.
\<close>

theorem filter_second_eq_token_raises:
  "parse_filter (py_str repr_of) customer_dict
     (Some ''City eq Berlin and Country eq Germany'') customers_data = Inl ValueError"
  by (simp add: parse_filter_def customers_data_def filter_item_def py_split_def)

text \<open>
  Claim C2 (a text matching neither form leaves the record list unchanged) fails on the
  code for a text that holds \<^verbatim>\<open>contains(\<close> and does not fit the pattern: the branch
  is taken, nothing is appended, and the seed customers are filtered down to the
  empty list.
\<close>

theorem filter_contains_unmatched_drops_all:
  "parse_filter (py_str repr_of) customer_dict (Some ''contains(City, Berlin)'') customers_data
     = Inr []"
  by (simp add: parse_filter_def customers_data_def filter_item_def match_contains_def
        isword_def isspace_def latin1_word_def)

text \<open>The fallback the source's comment describes is reached only without either token.\<close>

lemma filter_fallback_keeps_all:
  assumes "\<not> str_in '' eq '' s" and "\<not> str_in ''contains('' s"
  shows "parse_filter str_of to_dict (Some s) data = Inr data"
proof -
  have "\<And>x. filter_item str_of s (to_dict x) = Inr True"
    using assms by (simp add: filter_item_def)
  then have "filter_loop str_of to_dict s data [] = Inr ([] @ filter (\<lambda>_. True) data)"
    by (intro filter_loop_keeps) simp
  then show ?thesis by (simp add: parse_filter_def)
qed




section \<open>Properties of the order stage\<close>

lemma py_sorted_stable:
  "filter (\<lambda>x. key x = k) (py_sorted key rv xs) = filter (\<lambda>x. key x = k) xs"
proof (cases rv)
  case True
  have "filter (\<lambda>x. key x = k) (rev (sort_key key (rev xs)))
          = rev (filter (\<lambda>x. key x = k) (sort_key key (rev xs)))"
    by (simp add: rev_filter)
  also have "\<dots> = rev (filter (\<lambda>x. key x = k) (rev xs))"
    by (simp add: sort_key_stable)
  also have "\<dots> = filter (\<lambda>x. key x = k) xs"
    by (simp add: rev_filter)
  finally show ?thesis using True by (simp add: py_sorted_def)
next
  case False
  then show ?thesis by (simp add: py_sorted_def sort_key_stable)
qed

lemma py_sorted_stable_on:
  assumes "\<And>x y. (g x = g y) = (key x = key y)"
  shows "filter (\<lambda>x. g x = v) (py_sorted key rv xs) = filter (\<lambda>x. g x = v) xs"
proof (cases "\<exists>x0. g x0 = v")
  case True
  then obtain x0 where "g x0 = v" ..
  then have "(\<lambda>x. g x = v) = (\<lambda>x. key x = key x0)"
    using assms by auto
  then show ?thesis by (simp add: py_sorted_stable)
next
  case False
  then show ?thesis by simp
qed

lemma status_value_eq: "(status_value a = status_value b) = (a = b)"
  by (cases a; cases b) simp_all

lemma map_PStr_eq: "(map PStr a = map PStr b) = (a = b)"
  by (simp add: inj_map_eq_map inj_def)

lemma float_rank_eq: "(float_rank a = float_rank b) = (a = b)"
  by (cases a; cases b) simp_all

lemma float_lt_rank: "a \<noteq> NaN \<Longrightarrow> b \<noteq> NaN \<Longrightarrow> float_lt a b = (float_rank a < float_rank b)"
  by (cases a; cases b) simp_all

lemma optional_member_less:
  assumes "x \<notin> R"
  shows "(R \<union> (if a then {x} else {}) \<subset> R \<union> (if b then {x} else {})) = (a < b)"
  using assms by (cases a; cases b) auto

text \<open>Proper inclusion of the fields sets of two orders is the order of \<open>Items_set\<close>.\<close>

lemma order_fields_set_less:
  "(order_fields_set a \<subset> order_fields_set b) = (Items_set a < Items_set b)"
proof -
  have "''Items'' \<notin> {''OrderID'', ''CustomerID'', ''OrderDate'', ''TotalAmount'', ''Status''}"
    by simp
  then show ?thesis
    unfolding order_fields_set_def by (rule optional_member_less)
qed

lemma float_sorted_stable:
  assumes "NaN \<notin> key ` set xs" and "\<And>x y. (g x = g y) = (key x = key y)"
  shows "filter (\<lambda>x. g x = v) (float_sorted l key rv xs) = filter (\<lambda>x. g x = v) xs"
proof -
  have "float_sorted l key rv xs = py_sorted (\<lambda>x. float_rank (key x)) rv xs"
    using assms(1) by (simp add: float_sorted_def)
  moreover have "\<And>x y. (g x = g y) = (float_rank (key x) = float_rank (key y))"
    by (simp add: assms(2) float_rank_eq)
  ultimately show ?thesis by (simp add: py_sorted_stable_on)
qed

lemma customer_sorted_unknown:
  "field \<notin> set customer_fields \<Longrightarrow>
   customer_sorted l field rv cs =
     (if field \<in> set fields_set_names then Some cs else if cs = [] then Some [] else None)"
  by (simp add: customer_sorted_def customer_fields_def)

lemma order_sorted_unknown:
  "field \<notin> set order_fields \<Longrightarrow> field \<notin> set fields_set_names \<Longrightarrow>
   order_sorted l field rv os = (if os = [] then Some [] else None)"
  by (simp add: order_sorted_def order_fields_def)

lemma customer_sorted_stable_fields:
  "\<exists>r. customer_sorted l ''CustomerID'' rv xs = Some r \<and>
      (\<forall>v. filter (\<lambda>c. map_of (customer_dict c) ''CustomerID'' = Some v) r
           = filter (\<lambda>c. map_of (customer_dict c) ''CustomerID'' = Some v) xs)"
  "\<exists>r. customer_sorted l ''CustomerName'' rv xs = Some r \<and>
      (\<forall>v. filter (\<lambda>c. map_of (customer_dict c) ''CustomerName'' = Some v) r
           = filter (\<lambda>c. map_of (customer_dict c) ''CustomerName'' = Some v) xs)"
  "\<exists>r. customer_sorted l ''Email'' rv xs = Some r \<and>
      (\<forall>v. filter (\<lambda>c. map_of (customer_dict c) ''Email'' = Some v) r
           = filter (\<lambda>c. map_of (customer_dict c) ''Email'' = Some v) xs)"
  "\<exists>r. customer_sorted l ''Phone'' rv xs = Some r \<and>
      (\<forall>v. filter (\<lambda>c. map_of (customer_dict c) ''Phone'' = Some v) r
           = filter (\<lambda>c. map_of (customer_dict c) ''Phone'' = Some v) xs)"
  "\<exists>r. customer_sorted l ''City'' rv xs = Some r \<and>
      (\<forall>v. filter (\<lambda>c. map_of (customer_dict c) ''City'' = Some v) r
           = filter (\<lambda>c. map_of (customer_dict c) ''City'' = Some v) xs)"
  "\<exists>r. customer_sorted l ''Country'' rv xs = Some r \<and>
      (\<forall>v. filter (\<lambda>c. map_of (customer_dict c) ''Country'' = Some v) r
           = filter (\<lambda>c. map_of (customer_dict c) ''Country'' = Some v) xs)"
  "\<exists>r. customer_sorted l ''Status'' rv xs = Some r \<and>
      (\<forall>v. filter (\<lambda>c. map_of (customer_dict c) ''Status'' = Some v) r
           = filter (\<lambda>c. map_of (customer_dict c) ''Status'' = Some v) xs)"
  "\<exists>r. customer_sorted l ''CreatedDate'' rv xs = Some r \<and>
      (\<forall>v. filter (\<lambda>c. map_of (customer_dict c) ''CreatedDate'' = Some v) r
           = filter (\<lambda>c. map_of (customer_dict c) ''CreatedDate'' = Some v) xs)"
  by (simp_all add: customer_sorted_def customer_dict_def status_value_eq
        py_sorted_stable_on [where key = CustomerID]
        py_sorted_stable_on [where key = CustomerName]
        py_sorted_stable_on [where key = Email]
        py_sorted_stable_on [where key = Phone]
        py_sorted_stable_on [where key = City]
        py_sorted_stable_on [where key = Country]
        py_sorted_stable_on [where key = "\<lambda>c. status_value (Status c)"]
        py_sorted_stable_on [where key = CreatedDate])

lemma customer_sorted_stable_credit:
  assumes "NaN \<notin> CreditLimit ` set xs"
  shows "\<exists>r. customer_sorted l ''CreditLimit'' rv xs = Some r \<and>
      (\<forall>v. filter (\<lambda>c. map_of (customer_dict c) ''CreditLimit'' = Some v) r
           = filter (\<lambda>c. map_of (customer_dict c) ''CreditLimit'' = Some v) xs)"
proof -
  have "\<And>v. filter (\<lambda>c. PFloat (CreditLimit c) = v) (float_sorted l CreditLimit rv xs)
            = filter (\<lambda>c. PFloat (CreditLimit c) = v) xs"
    by (rule float_sorted_stable [OF assms]) simp
  then show ?thesis by (simp add: customer_sorted_def customer_dict_def)
qed

lemma order_sorted_stable_fields:
  "\<exists>r. order_sorted l ''OrderID'' rv xs = Some r \<and>
      (\<forall>v. filter (\<lambda>c. map_of (order_dict c) ''OrderID'' = Some v) r
           = filter (\<lambda>c. map_of (order_dict c) ''OrderID'' = Some v) xs)"
  "\<exists>r. order_sorted l ''CustomerID'' rv xs = Some r \<and>
      (\<forall>v. filter (\<lambda>c. map_of (order_dict c) ''CustomerID'' = Some v) r
           = filter (\<lambda>c. map_of (order_dict c) ''CustomerID'' = Some v) xs)"
  "\<exists>r. order_sorted l ''OrderDate'' rv xs = Some r \<and>
      (\<forall>v. filter (\<lambda>c. map_of (order_dict c) ''OrderDate'' = Some v) r
           = filter (\<lambda>c. map_of (order_dict c) ''OrderDate'' = Some v) xs)"
  "\<exists>r. order_sorted l ''Status'' rv xs = Some r \<and>
      (\<forall>v. filter (\<lambda>c. map_of (order_dict c) ''Status'' = Some v) r
           = filter (\<lambda>c. map_of (order_dict c) ''Status'' = Some v) xs)"
  "\<exists>r. order_sorted l ''Items'' rv xs = Some r \<and>
      (\<forall>v. filter (\<lambda>c. map_of (order_dict c) ''Items'' = Some v) r
           = filter (\<lambda>c. map_of (order_dict c) ''Items'' = Some v) xs)"
  by (simp_all add: order_sorted_def order_dict_def map_PStr_eq
        py_sorted_stable_on [where key = OrderID]
        py_sorted_stable_on [where key = Order.CustomerID]
        py_sorted_stable_on [where key = OrderDate]
        py_sorted_stable_on [where key = Order.Status]
        py_sorted_stable_on [where key = Items])

lemma order_sorted_stable_amount:
  assumes "NaN \<notin> TotalAmount ` set xs"
  shows "\<exists>r. order_sorted l ''TotalAmount'' rv xs = Some r \<and>
      (\<forall>v. filter (\<lambda>c. map_of (order_dict c) ''TotalAmount'' = Some v) r
           = filter (\<lambda>c. map_of (order_dict c) ''TotalAmount'' = Some v) xs)"
proof -
  have "\<And>v. filter (\<lambda>c. PFloat (TotalAmount c) = v) (float_sorted l TotalAmount rv xs)
            = filter (\<lambda>c. PFloat (TotalAmount c) = v) xs"
    by (rule float_sorted_stable [OF assms]) simp
  then show ?thesis by (simp add: order_sorted_def order_dict_def)
qed

lemma customer_sorted_stable:
  assumes "field \<in> set customer_fields"
    and "field = ''CreditLimit'' \<longrightarrow> NaN \<notin> CreditLimit ` set xs"
  shows "\<exists>r. customer_sorted l field rv xs = Some r \<and>
           (\<forall>v. filter (\<lambda>c. map_of (customer_dict c) field = Some v) r
                = filter (\<lambda>c. map_of (customer_dict c) field = Some v) xs)"
proof (cases "field = ''CreditLimit''")
  case True
  with assms(2) have "NaN \<notin> CreditLimit ` set xs" by simp
  then show ?thesis unfolding True by (rule customer_sorted_stable_credit)
next
  case False
  then have "field = ''CustomerID'' \<or> field = ''CustomerName'' \<or> field = ''Email'' \<or>
        field = ''Phone'' \<or> field = ''City'' \<or> field = ''Country'' \<or> field = ''Status'' \<or>
        field = ''CreatedDate''"
    using assms(1) by (simp add: customer_fields_def)
  then show ?thesis
    by (elim disjE; hypsubst; intro customer_sorted_stable_fields)
qed

lemma order_sorted_stable:
  assumes "field \<in> set order_fields"
    and "field = ''TotalAmount'' \<longrightarrow> NaN \<notin> TotalAmount ` set xs"
  shows "\<exists>r. order_sorted l field rv xs = Some r \<and>
           (\<forall>v. filter (\<lambda>c. map_of (order_dict c) field = Some v) r
                = filter (\<lambda>c. map_of (order_dict c) field = Some v) xs)"
proof (cases "field = ''TotalAmount''")
  case True
  with assms(2) have "NaN \<notin> TotalAmount ` set xs" by simp
  then show ?thesis unfolding True by (rule order_sorted_stable_amount)
next
  case False
  then have "field = ''OrderID'' \<or> field = ''CustomerID'' \<or> field = ''OrderDate'' \<or>
        field = ''Status'' \<or> field = ''Items''"
    using assms(1) by (simp add: order_fields_def)
  then show ?thesis
    by (elim disjE; hypsubst; intro order_sorted_stable_fields)
qed

lemma parse_orderby_words:
  assumes "py_words s = field # rest"
  shows "parse_orderby sorted_by (Some s) data =
           (case sorted_by field (case rest of [] \<Rightarrow> False | d # _ \<Rightarrow> lower d = ''desc'') data of
              Some r \<Rightarrow> Inr r | None \<Rightarrow> Inr data)"
proof -
  have "s \<noteq> []" using assms by (auto simp: py_words_def)
  then show ?thesis using assms by (simp add: parse_orderby_def)
qed

lemma parse_orderby_returns:
  assumes "py_words s = field # rest"
  shows "\<exists>r. parse_orderby sorted_by (Some s) data = Inr r"
  by (simp add: parse_orderby_words [OF assms] split: option.split)

lemma binarysort_step:
  assumes "bisect lt (key p) (map key run) 0 (length run) = l"
  shows "binarysort lt key run (p # rest) = binarysort lt key (take l run @ p # drop l run) rest"
  using assms by (simp add: binarysort.simps)

lemma nan_keys:
  "map CreditLimit nan_customers = [Fin 0, Fin (1 / 10), Fin 5, NaN, Fin 1, Fin (1 / 2), Fin 1]"
  by (simp add: nan_customers_def)

lemma nan_customers_sorted:
  "small_sort float_lt CreditLimit nan_customers = map (\<lambda>i. nan_customers ! i) [0, 1, 5, 6, 2, 3, 4]"
proof -
  obtain c1 c2 c3 c4 c5 c6 c7 where cs: "nan_customers = [c1, c2, c3, c4, c5, c6, c7]"
    by (simp add: nan_customers_def)
  have keys: "CreditLimit c1 = Fin 0" "CreditLimit c2 = Fin (1 / 10)" "CreditLimit c3 = Fin 5"
    "CreditLimit c4 = NaN" "CreditLimit c5 = Fin 1" "CreditLimit c6 = Fin (1 / 2)"
    "CreditLimit c7 = Fin 1"
    using nan_keys by (simp_all add: cs)
  have run: "count_run float_lt (map CreditLimit nan_customers) = (5, False)"
    by (simp add: nan_keys count_run_def)
  have b1: "bisect float_lt (CreditLimit c6) (map CreditLimit [c1, c2, c3, c4, c5]) 0
              (length [c1, c2, c3, c4, c5]) = 2"
    by (simp add: keys bisect.simps Let_def)
  have b2: "bisect float_lt (CreditLimit c7) (map CreditLimit [c1, c2, c6, c3, c4, c5]) 0
              (length [c1, c2, c6, c3, c4, c5]) = 3"
    by (simp add: keys bisect.simps Let_def)
  have "small_sort float_lt CreditLimit nan_customers
          = binarysort float_lt CreditLimit [c1, c2, c3, c4, c5] [c6, c7]"
    unfolding small_sort_def run by (simp add: cs)
  also have "\<dots> = binarysort float_lt CreditLimit [c1, c2, c6, c3, c4, c5] [c7]"
    using binarysort_step [OF b1] by simp
  also have "\<dots> = binarysort float_lt CreditLimit [c1, c2, c6, c7, c3, c4, c5] []"
    using binarysort_step [OF b2] by simp
  finally show ?thesis by (simp add: binarysort.simps cs)
qed

lemma nan_customers_orderby:
  "parse_orderby (customer_sorted l) (Some ''CreditLimit'') nan_customers
     = Inr (map (\<lambda>i. nan_customers ! i) [0, 1, 5, 6, 2, 3, 4])"
proof -
  have w: "py_words ''CreditLimit'' = [''CreditLimit'']"
    by (simp add: py_words_def isspace_def)
  have "NaN \<in> set (map CreditLimit nan_customers)"
    by (simp add: nan_keys)
  moreover have "length nan_customers < 64"
    by (simp add: nan_customers_def)
  ultimately have "customer_sorted l ''CreditLimit'' False nan_customers
      = Some (small_sort float_lt CreditLimit nan_customers)"
    by (simp add: customer_sorted_def float_sorted_def)
  then show ?thesis
    by (simp add: parse_orderby_words [OF w] nan_customers_sorted)
qed

text \<open>
  Claim C6 (an orderby text naming no field of the record type leaves the list
  unchanged, and the sort on a field is stable) fails on the code as worded.  The name
  \<^verbatim>\<open>model_fields_set\<close> is no field of an order, yet it is an attribute, and sorting by
  it moves an order built without \<^verbatim>\<open>Items\<close> to the front.  And with a NaN credit
  limit in the list \<^verbatim>\<open><\<close> is no order: sorting \<open>nan_customers\<close> by \<^verbatim>\<open>CreditLimit\<close> puts
  customer 7 before customer 5, both with the key 1.0.
\<close>

theorem orderby_counterexample:
  "''model_fields_set'' \<notin> set order_fields \<and>
   map OrderID orders_without_items = [1001, 1002] \<and>
   (\<forall>l. map_sum id (map OrderID)
          (parse_orderby (order_sorted l) (Some ''model_fields_set'') orders_without_items)
        = Inr [1002, 1001]) \<and>
   map CustomerID (filter (\<lambda>c. CreditLimit c = Fin 1) nan_customers) = [5, 7] \<and>
   (\<forall>l. map_sum id (\<lambda>r. map CustomerID (filter (\<lambda>c. CreditLimit c = Fin 1) r))
          (parse_orderby (customer_sorted l) (Some ''CreditLimit'') nan_customers)
        = Inr [7, 5])"
proof -
  have a: "''model_fields_set'' \<notin> set order_fields"
    by (simp add: order_fields_def)
  have b: "map OrderID orders_without_items = [1001, 1002]"
    by (simp add: orders_without_items_def orders_data_def)
  have c: "map_sum id (map OrderID)
          (parse_orderby (order_sorted l) (Some ''model_fields_set'') orders_without_items)
        = Inr [1002, 1001]" for l
    by (simp add: parse_orderby_def py_words_def isspace_def order_sorted_def fields_set_names_def
          py_sorted_def orders_without_items_def orders_data_def)
  have d: "map CustomerID (filter (\<lambda>c. CreditLimit c = Fin 1) nan_customers) = [5, 7]"
    by (simp add: nan_customers_def)
  have e: "map_sum id (\<lambda>r. map CustomerID (filter (\<lambda>c. CreditLimit c = Fin 1) r))
          (parse_orderby (customer_sorted l) (Some ''CreditLimit'') nan_customers)
        = Inr [7, 5]" for l
    unfolding nan_customers_orderby by (simp add: nan_customers_def)
  show ?thesis using a b c d e by simp
qed

text \<open>
  Claim C6 as amended.  For an orderby text whose first word is \<open>field\<close> the order stage
  returns normally, on customers and on orders.  When \<open>field\<close> is not a field of the
  record class the input list is returned unchanged; for orders this needs \<open>field\<close> not
  to be one of the names of the fields-set attribute.  When \<open>field\<close> is a field, and no
  key is NaN when it is the float field, then for every value \<open>v\<close> the records whose
  \<open>field\<close> holds \<open>v\<close> appear in the result in their input order, whatever the direction.
\<close>

theorem orderby_fail_soft_and_stable:
  assumes "py_words s = field # rest"
  shows "(\<exists>r. parse_orderby (customer_sorted l) (Some s) cs = Inr r) \<and>
         (\<exists>r. parse_orderby (order_sorted l') (Some s) os = Inr r) \<and>
         (field \<notin> set customer_fields \<longrightarrow>
            parse_orderby (customer_sorted l) (Some s) cs = Inr cs) \<and>
         (field \<notin> set order_fields \<and> field \<notin> set fields_set_names \<longrightarrow>
            parse_orderby (order_sorted l') (Some s) os = Inr os) \<and>
         (field \<in> set customer_fields \<and>
          (field = ''CreditLimit'' \<longrightarrow> NaN \<notin> CreditLimit ` set cs) \<longrightarrow>
            (\<exists>r. parse_orderby (customer_sorted l) (Some s) cs = Inr r \<and>
                 (\<forall>v. filter (\<lambda>c. map_of (customer_dict c) field = Some v) r
                      = filter (\<lambda>c. map_of (customer_dict c) field = Some v) cs))) \<and>
         (field \<in> set order_fields \<and>
          (field = ''TotalAmount'' \<longrightarrow> NaN \<notin> TotalAmount ` set os) \<longrightarrow>
            (\<exists>r. parse_orderby (order_sorted l') (Some s) os = Inr r \<and>
                 (\<forall>v. filter (\<lambda>c. map_of (order_dict c) field = Some v) r
                      = filter (\<lambda>c. map_of (order_dict c) field = Some v) os)))"
proof (intro conjI impI)
  show "\<exists>r. parse_orderby (customer_sorted l) (Some s) cs = Inr r"
    by (rule parse_orderby_returns [OF assms])
next
  show "\<exists>r. parse_orderby (order_sorted l') (Some s) os = Inr r"
    by (rule parse_orderby_returns [OF assms])
next
  assume "field \<notin> set customer_fields"
  then show "parse_orderby (customer_sorted l) (Some s) cs = Inr cs"
    by (simp add: parse_orderby_words [OF assms] customer_sorted_unknown)
next
  assume "field \<notin> set order_fields \<and> field \<notin> set fields_set_names"
  then show "parse_orderby (order_sorted l') (Some s) os = Inr os"
    by (simp add: parse_orderby_words [OF assms] order_sorted_unknown)
next
  let ?rv = "case rest of [] \<Rightarrow> False | d # _ \<Rightarrow> lower d = ''desc''"
  assume a: "field \<in> set customer_fields \<and>
    (field = ''CreditLimit'' \<longrightarrow> NaN \<notin> CreditLimit ` set cs)"
  then have "field \<in> set customer_fields"
    and "field = ''CreditLimit'' \<longrightarrow> NaN \<notin> CreditLimit ` set cs"
    by (rule conjunct1, rule conjunct2)
  from customer_sorted_stable [OF this, of l ?rv]
  obtain r where r: "customer_sorted l field ?rv cs = Some r"
    and st: "\<forall>v. filter (\<lambda>c. map_of (customer_dict c) field = Some v) r
               = filter (\<lambda>c. map_of (customer_dict c) field = Some v) cs"
    by blast
  have "parse_orderby (customer_sorted l) (Some s) cs = Inr r"
    by (simp add: parse_orderby_words [OF assms] r)
  with st show "\<exists>r. parse_orderby (customer_sorted l) (Some s) cs = Inr r \<and>
            (\<forall>v. filter (\<lambda>c. map_of (customer_dict c) field = Some v) r
                 = filter (\<lambda>c. map_of (customer_dict c) field = Some v) cs)"
    by blast
next
  let ?rv = "case rest of [] \<Rightarrow> False | d # _ \<Rightarrow> lower d = ''desc''"
  assume a: "field \<in> set order_fields \<and>
    (field = ''TotalAmount'' \<longrightarrow> NaN \<notin> TotalAmount ` set os)"
  then have "field \<in> set order_fields"
    and "field = ''TotalAmount'' \<longrightarrow> NaN \<notin> TotalAmount ` set os"
    by (rule conjunct1, rule conjunct2)
  from order_sorted_stable [OF this, of l' ?rv]
  obtain r where r: "order_sorted l' field ?rv os = Some r"
    and st: "\<forall>v. filter (\<lambda>c. map_of (order_dict c) field = Some v) r
               = filter (\<lambda>c. map_of (order_dict c) field = Some v) os"
    by blast
  have "parse_orderby (order_sorted l') (Some s) os = Inr r"
    by (simp add: parse_orderby_words [OF assms] r)
  with st show "\<exists>r. parse_orderby (order_sorted l') (Some s) os = Inr r \<and>
            (\<forall>v. filter (\<lambda>c. map_of (order_dict c) field = Some v) r
                 = filter (\<lambda>c. map_of (order_dict c) field = Some v) os)"
    by blast
qed

theorem orderby_fail_soft_and_stable_witness:
  "\<forall>l l'.
     py_words ''Bogus desc'' = [''Bogus'', ''desc''] \<and>
     ''Bogus'' \<notin> set customer_fields \<and> ''Bogus'' \<notin> set order_fields \<and>
     ''Bogus'' \<notin> set fields_set_names \<and>
     parse_orderby (customer_sorted l) (Some ''Bogus desc'') customers_data = Inr customers_data \<and>
     parse_orderby (order_sorted l') (Some ''Bogus desc'') orders_data = Inr orders_data \<and>
     py_words ''CreditLimit desc'' = [''CreditLimit'', ''desc''] \<and>
     ''CreditLimit'' \<in> set customer_fields \<and> NaN \<notin> CreditLimit ` set customers_data \<and>
     (\<exists>r. parse_orderby (customer_sorted l) (Some ''CreditLimit desc'') customers_data = Inr r \<and>
          (\<forall>v. filter (\<lambda>c. map_of (customer_dict c) ''CreditLimit'' = Some v) r
               = filter (\<lambda>c. map_of (customer_dict c) ''CreditLimit'' = Some v) customers_data)) \<and>
     py_words ''TotalAmount'' = [''TotalAmount''] \<and>
     ''TotalAmount'' \<in> set order_fields \<and> NaN \<notin> TotalAmount ` set orders_data \<and>
     (\<exists>r. parse_orderby (order_sorted l') (Some ''TotalAmount'') orders_data = Inr r \<and>
          (\<forall>v. filter (\<lambda>c. map_of (order_dict c) ''TotalAmount'' = Some v) r
               = filter (\<lambda>c. map_of (order_dict c) ''TotalAmount'' = Some v) orders_data))"
proof (intro allI)
  fix l l'
  have w1: "py_words ''Bogus desc'' = [''Bogus'', ''desc'']"
    and w2: "py_words ''CreditLimit desc'' = [''CreditLimit'', ''desc'']"
    and w3: "py_words ''TotalAmount'' = [''TotalAmount'']"
    by (simp_all add: py_words_def isspace_def)
  have m: "''Bogus'' \<notin> set customer_fields" "''Bogus'' \<notin> set order_fields"
    "''Bogus'' \<notin> set fields_set_names"
    "''CreditLimit'' \<in> set customer_fields" "''TotalAmount'' \<in> set order_fields"
    by (simp_all add: customer_fields_def order_fields_def fields_set_names_def)
  have n: "NaN \<notin> CreditLimit ` set customers_data" "NaN \<notin> TotalAmount ` set orders_data"
    by (simp_all add: customers_data_def orders_data_def)
  show "py_words ''Bogus desc'' = [''Bogus'', ''desc''] \<and>
     ''Bogus'' \<notin> set customer_fields \<and> ''Bogus'' \<notin> set order_fields \<and>
     ''Bogus'' \<notin> set fields_set_names \<and>
     parse_orderby (customer_sorted l) (Some ''Bogus desc'') customers_data = Inr customers_data \<and>
     parse_orderby (order_sorted l') (Some ''Bogus desc'') orders_data = Inr orders_data \<and>
     py_words ''CreditLimit desc'' = [''CreditLimit'', ''desc''] \<and>
     ''CreditLimit'' \<in> set customer_fields \<and> NaN \<notin> CreditLimit ` set customers_data \<and>
     (\<exists>r. parse_orderby (customer_sorted l) (Some ''CreditLimit desc'') customers_data = Inr r \<and>
          (\<forall>v. filter (\<lambda>c. map_of (customer_dict c) ''CreditLimit'' = Some v) r
               = filter (\<lambda>c. map_of (customer_dict c) ''CreditLimit'' = Some v) customers_data)) \<and>
     py_words ''TotalAmount'' = [''TotalAmount''] \<and>
     ''TotalAmount'' \<in> set order_fields \<and> NaN \<notin> TotalAmount ` set orders_data \<and>
     (\<exists>r. parse_orderby (order_sorted l') (Some ''TotalAmount'') orders_data = Inr r \<and>
          (\<forall>v. filter (\<lambda>c. map_of (order_dict c) ''TotalAmount'' = Some v) r
               = filter (\<lambda>c. map_of (order_dict c) ''TotalAmount'' = Some v) orders_data))"
    using orderby_fail_soft_and_stable [OF w1, of l customers_data l' orders_data]
      orderby_fail_soft_and_stable [OF w2, of l customers_data l' orders_data]
      orderby_fail_soft_and_stable [OF w3, of l customers_data l' orders_data]
      w1 w2 w3 m n
    by blast
qed

section \<open>Properties of pagination and count\<close>

lemma paginate_nonneg:
  assumes "\<forall>k. skip = Some k \<longrightarrow> 0 \<le> k" and "\<forall>k. top' = Some k \<longrightarrow> 0 \<le> k"
  shows "paginate skip top' xs = spec_page (map_option nat skip) (map_option nat top') xs"
  using assms
  by (auto simp: paginate_def spec_page_def slice_from_def slice_to_def Let_def
           split: option.splits)

text \<open>
  Claim C5.  When the filter and order stages of \<^verbatim>\<open>get_customers\<close> return the list
  \<open>ordered\<close>, and the skip and top values that are present are non-negative (the
  contract of the stage), the response holds the projection of the page obtained by
  dropping the first \<open>skip\<close> records and then truncating to the first \<open>top\<close>, an
  absent or zero value being a no-op, and the count, when requested, is the length of
  \<open>ordered\<close>, whatever skip and top are.
\<close>

theorem paginate_skip_then_top:
  assumes "parse_filter str_of customer_dict flt customers = Inr filtered"
    and "parse_orderby (customer_sorted l) orderby filtered = Inr ordered"
    and "\<forall>k. skip = Some k \<longrightarrow> 0 \<le> k"
    and "\<forall>k. top' = Some k \<longrightarrow> 0 \<le> k"
  shows "get_customers l str_of flt select orderby top' skip cnt customers =
           Inr \<lparr>value = parse_select customer_dict select
                           (spec_page (map_option nat skip) (map_option nat top') ordered),
                count = (if cnt = Some True then Some (length ordered) else None)\<rparr>"
  using assms(1,2) paginate_nonneg [OF assms(3,4), of ordered]
  by (simp add: get_customers_def Let_def)

theorem paginate_skip_then_top_witness:
  "\<forall>l str_of. get_customers l str_of None None None (Some 2) (Some 1) (Some True) customers_data =
     Inr \<lparr>value = [customer_dict (customers_data ! 1), customer_dict (customers_data ! 2)],
          count = Some 4\<rparr>"
  using paginate_skip_then_top [where flt = None and customers = customers_data
      and filtered = customers_data and orderby = None and ordered = customers_data
      and skip = "Some 1" and top' = "Some 2" and select = None and cnt = "Some True"]
  by (simp add: parse_filter_def parse_orderby_def spec_page_def parse_select_def customers_data_def)

text \<open>A negative value is a Python slice from the end, outside the stage's contract.\<close>

lemma paginate_negative_example: "paginate (Some (- 1)) None [a, b, c] = [c]"
  by (simp add: paginate_def slice_from_def)

section \<open>Properties of selection\<close>

lemma select_fold_map_of:
  "map_of (foldl (\<lambda>acc f. case map_of d f of Some v \<Rightarrow> AList.update f v acc | None \<Rightarrow> acc) acc fs) k
     = (if k \<in> set fs \<and> map_of d k \<noteq> None then map_of d k else map_of acc k)"
  by (induction fs arbitrary: acc) (auto simp: update_conv' split: option.splits)


lemma map_of_select_item:
  "map_of (select_item fs d) k = (if k \<in> set fs then map_of d k else None)"
  by (simp add: select_item_def select_fold_map_of)


lemma keys_select_item: "fst ` set (select_item fs d) = set fs \<inter> fst ` set d"
proof -
  have "dom (map_of (select_item fs d)) = set fs \<inter> dom (map_of d)"
    by (auto simp: map_of_select_item dom_def)
  then show ?thesis by (simp add: dom_map_of_conv_image_fst)
qed



section \<open>Properties of the record store\<close>

lemma index_of_id_None: "index_of_id i cs = None \<longleftrightarrow> i \<notin> CustomerID ` set cs"
  by (induction cs) auto

lemma index_of_id_Some:
  "index_of_id i cs = Some n \<Longrightarrow> n < length cs \<and> CustomerID (cs ! n) = i"
  by (induction cs arbitrary: n) (auto split: if_splits)

text \<open>
  Claim C8.  Creating a customer fails with the 400 error (DuplicateKey) exactly when a
  record with its CustomerID is present, and otherwise appends it; replace-by-id and
  delete-by-id fail with the 404 error (NotFound) exactly when no record has the id;
  a failure leaves the store as it was.
\<close>

theorem store_errors:
  "(CustomerID c \<in> CustomerID ` set cs \<longrightarrow>
      create_customer c cs = (Inl (HTTPException 400 ''Customer ID already exists''), cs)) \<and>
   (CustomerID c \<notin> CustomerID ` set cs \<longrightarrow>
      (\<exists>r. create_customer c cs = (Inr r, cs @ [c]))) \<and>
   (i \<notin> CustomerID ` set cs \<longrightarrow>
      update_customer i c cs = (Inl (HTTPException 404 ''Customer not found''), cs) \<and>
      delete_customer i cs = (Inl (HTTPException 404 ''Customer not found''), cs)) \<and>
   (i \<in> CustomerID ` set cs \<longrightarrow>
      (\<exists>r cs'. update_customer i c cs = (Inr r, cs')) \<and>
      (\<exists>r cs'. delete_customer i cs = (Inr r, cs')))"
proof (intro conjI impI)
  assume "CustomerID c \<in> CustomerID ` set cs"
  then show "create_customer c cs = (Inl (HTTPException 400 ''Customer ID already exists''), cs)"
    by (auto simp: create_customer_def)
next
  assume "CustomerID c \<notin> CustomerID ` set cs"
  then have "\<not> (\<exists>x \<in> set cs. CustomerID x = CustomerID c)"
    by (metis image_eqI)
  then show "\<exists>r. create_customer c cs = (Inr r, cs @ [c])"
    by (simp add: create_customer_def)
next
  assume "i \<notin> CustomerID ` set cs"
  then have "index_of_id i cs = None" by (simp add: index_of_id_None)
  then show "update_customer i c cs = (Inl (HTTPException 404 ''Customer not found''), cs)"
    and "delete_customer i cs = (Inl (HTTPException 404 ''Customer not found''), cs)"
    by (simp_all add: update_customer_def delete_customer_def)
next
  assume "i \<in> CustomerID ` set cs"
  then obtain n where "index_of_id i cs = Some n"
    using index_of_id_None [of i cs] by (cases "index_of_id i cs") auto
  then show "\<exists>r cs'. update_customer i c cs = (Inr r, cs')"
    and "\<exists>r cs'. delete_customer i cs = (Inr r, cs')"
    by (simp_all add: update_customer_def delete_customer_def)
qed

theorem store_errors_witness:
  "CustomerID (customers_data ! 1) \<in> CustomerID ` set customers_data \<and>
   create_customer (customers_data ! 1) customers_data
     = (Inl (HTTPException 400 ''Customer ID already exists''), customers_data) \<and>
   7 \<notin> CustomerID ` set customers_data \<and>
   (\<exists>r. create_customer ((customers_data ! 1)\<lparr>CustomerID := 7\<rparr>) customers_data
          = (Inr r, customers_data @ [(customers_data ! 1)\<lparr>CustomerID := 7\<rparr>])) \<and>
   update_customer 7 (customers_data ! 1) customers_data
     = (Inl (HTTPException 404 ''Customer not found''), customers_data) \<and>
   delete_customer 7 customers_data
     = (Inl (HTTPException 404 ''Customer not found''), customers_data) \<and>
   (\<exists>r cs'. update_customer 2 (customers_data ! 1) customers_data = (Inr r, cs')) \<and>
   (\<exists>r cs'. delete_customer 2 customers_data = (Inr r, cs'))"
proof -
  have a: "CustomerID (customers_data ! 1) \<in> CustomerID ` set customers_data"
    and b: "7 \<notin> CustomerID ` set customers_data"
    and c: "CustomerID ((customers_data ! 1)\<lparr>CustomerID := 7\<rparr>) \<notin> CustomerID ` set customers_data"
    and d: "2 \<in> CustomerID ` set customers_data"
    by (simp_all add: customers_data_def)
  show ?thesis
    using a b
      store_errors [of "customers_data ! 1" customers_data 7]
      store_errors [of "(customers_data ! 1)\<lparr>CustomerID := 7\<rparr>" customers_data 7] c
      store_errors [of "customers_data ! 1" customers_data 2] d
    by blast
qed

text \<open>
  Claim C3 (no two customers ever share a CustomerID) fails on the code.
  \<^verbatim>\<open>update_customer\<close> stores the body at the position of the path id and checks neither
  that the body carries that id nor that its id is free, as \<^verbatim>\<open>create_customer\<close> does:
  replacing customer 1 of the seed data by a body with CustomerID 2 leaves two
  customers with id 2.
\<close>

theorem update_with_other_id_duplicates:
  "map CustomerID (snd (update_customer 1 ((customers_data ! 0)\<lparr>CustomerID := 2\<rparr>) customers_data))
     = [2, 2, 3, 4] \<and>
   \<not> distinct (map CustomerID
        (snd (update_customer 1 ((customers_data ! 0)\<lparr>CustomerID := 2\<rparr>) customers_data)))"
  by (simp add: update_customer_def customers_data_def)

text \<open>Creation, deletion and a replacement that keeps the path id preserve uniqueness.\<close>

lemma create_keeps_ids_distinct:
  "distinct (map CustomerID cs) \<Longrightarrow> distinct (map CustomerID (snd (create_customer c cs)))"
  by (auto simp: create_customer_def)

lemma delete_keeps_ids_distinct:
  assumes "distinct (map CustomerID cs)"
  shows "distinct (map CustomerID (snd (delete_customer i cs)))"
proof (cases "index_of_id i cs")
  case None
  then show ?thesis using assms by (simp add: delete_customer_def)
next
  case (Some n)
  have "distinct (map CustomerID (take n cs) @ map CustomerID (drop n cs))"
    using assms by (simp flip: map_append)
  moreover have "set (drop (Suc n) cs) \<subseteq> set (drop n cs)"
    by (simp add: set_drop_subset_set_drop)
  moreover have "distinct (map CustomerID (drop (Suc n) cs))"
    using assms by (simp add: distinct_drop flip: drop_map)
  ultimately have "distinct (map CustomerID (take n cs) @ map CustomerID (drop (Suc n) cs))"
    by (auto simp: distinct_append)
  then show ?thesis using Some by (simp add: delete_customer_def)
qed

lemma update_same_id_keeps_ids:
  assumes "CustomerID c = i"
  shows "map CustomerID (snd (update_customer i c cs)) = map CustomerID cs"
proof (cases "index_of_id i cs")
  case None
  then show ?thesis by (simp add: update_customer_def)
next
  case (Some n)
  from index_of_id_Some [OF this] have "n < length cs" "CustomerID (cs ! n) = i" by simp_all
  then have "(map CustomerID cs)[n := CustomerID c] = map CustomerID cs"
    using assms by (simp add: list_update_same_conv)
  then show ?thesis using Some by (simp add: update_customer_def map_update)
qed

section \<open>Properties of expansion\<close>

lemma find_customer_1: "find (\<lambda>c. CustomerID c = 1) customers_data = Some (customers_data ! 0)"
  by (simp add: customers_data_def)

lemma orders_of_customer_1:
  "filter (\<lambda>o'. Order.CustomerID o' = 1) orders_data = [orders_data ! 0, orders_data ! 2]"
  by (simp add: orders_data_def)

text \<open>
  Claim C9.  On the seed data, reading customer 1 with the directive \<^verbatim>\<open>Orders\<close> returns
  the customer's mapping with one more key, \<^verbatim>\<open>Orders\<close>, holding the full mappings of the
  orders 1001 and 1003 in that order; these are exactly the seed orders whose
  CustomerID is 1.  A directive that does not contain \<^verbatim>\<open>Orders\<close> gives what no
  directive gives: no expansion and no error of its own.
\<close>

theorem expand_orders:
  "get_customer_by_id 1 None (Some ''Orders'') customers_data orders_data
     = Inr (customer_dict (customers_data ! 0) @
            [(''Orders'', PList [PDict (order_dict (orders_data ! 0)),
                                 PDict (order_dict (orders_data ! 2))])]) \<and>
   map OrderID [orders_data ! 0, orders_data ! 2] = [1001, 1003] \<and>
   filter (\<lambda>o'. Order.CustomerID o' = 1) orders_data = [orders_data ! 0, orders_data ! 2] \<and>
   (\<not> str_in ''Orders'' e \<longrightarrow>
      get_customer_by_id cid sel (Some e) cs os = get_customer_by_id cid sel None cs os)"
proof -
  have "get_customer_by_id 1 None (Some ''Orders'') customers_data orders_data
     = Inr (customer_dict (customers_data ! 0) @
            [(''Orders'', PList [PDict (order_dict (orders_data ! 0)),
                                 PDict (order_dict (orders_data ! 2))])])"
    by (simp add: get_customer_by_id_def find_customer_1 orders_of_customer_1 customer_dict_def)
  moreover have "map OrderID [orders_data ! 0, orders_data ! 2] = [1001, 1003]"
    by (simp add: orders_data_def)
  moreover have "\<not> str_in ''Orders'' e \<longrightarrow>
      get_customer_by_id cid sel (Some e) cs os = get_customer_by_id cid sel None cs os"
    by (simp add: get_customer_by_id_def Let_def split: option.split)
  ultimately show ?thesis using orders_of_customer_1 by blast
qed

theorem expand_orders_witness:
  "\<not> str_in ''Orders'' ''orders'' \<and>
   get_customer_by_id 1 None (Some ''orders'') customers_data orders_data
     = Inr (customer_dict (customers_data ! 0))"
proof -
  have a: "\<not> str_in ''Orders'' ''orders''" by simp
  have b: "get_customer_by_id 1 None None customers_data orders_data
     = Inr (customer_dict (customers_data ! 0))"
    by (simp add: get_customer_by_id_def find_customer_1)
  show ?thesis
    using a b expand_orders [of "''orders''" 1 None customers_data orders_data] by simp
qed

text \<open>
  Claim C10.  In \<^verbatim>\<open>get_customer_by_id\<close> selection is applied to the expanded mapping:
  for an existing customer, a directive containing \<^verbatim>\<open>Orders\<close> and a non-empty select
  text whose names do not include \<^verbatim>\<open>Orders\<close>, the result is the projection of the
  expanded mapping and has no \<^verbatim>\<open>Orders\<close> key.
\<close>

theorem select_after_expand:
  assumes "find (\<lambda>c. CustomerID c = cid) cs = Some c"
    and "str_in ''Orders'' e"
    and "sel \<noteq> []"
    and "''Orders'' \<notin> set (select_fields sel)"
  shows "\<exists>r. get_customer_by_id cid (Some sel) (Some e) cs os = Inr r \<and>
             r = select_item (select_fields sel)
                   (AList.update ''Orders''
                      (PList (map (\<lambda>o'. PDict (order_dict o'))
                                (filter (\<lambda>o'. Order.CustomerID o' = cid) os)))
                      (customer_dict c)) \<and>
             ''Orders'' \<notin> fst ` set r"
proof -
  have "e \<noteq> []" using assms(2) by auto
  then show ?thesis
    using assms by (simp add: get_customer_by_id_def Let_def keys_select_item)
qed

theorem select_after_expand_witness:
  "find (\<lambda>c. CustomerID c = 1) customers_data = Some (customers_data ! 0) \<and>
   str_in ''Orders'' ''Orders'' \<and>
   ''Orders'' \<notin> set (select_fields ''CustomerName,City'') \<and>
   get_customer_by_id 1 (Some ''CustomerName,City'') (Some ''Orders'') customers_data orders_data
     = Inr [(''CustomerName'', PStr ''Tech Solutions LLC''), (''City'', PStr ''New York'')]"
proof -
  have a: "str_in ''Orders'' ''Orders''" by simp
  have b: "''CustomerName,City'' \<noteq> []" by simp
  have c: "''Orders'' \<notin> set (select_fields ''CustomerName,City'')"
    by (simp add: select_fields_def py_split_def strip_def isspace_def)
  have d: "get_customer_by_id 1 (Some ''CustomerName,City'') (Some ''Orders'') customers_data orders_data
     = Inr [(''CustomerName'', PStr ''Tech Solutions LLC''), (''City'', PStr ''New York'')]"
    by (simp add: get_customer_by_id_def find_customer_1 select_fields_def py_split_def strip_def
          isspace_def select_item_def customer_dict_def customers_data_def)
  show ?thesis
    using select_after_expand [OF find_customer_1 a b c, of orders_data] a c d find_customer_1
    by simp
qed

end
